theory Spec2Isabelle
  imports Main
begin

section \<open>Python values and exceptions\<close>

text \<open>
  The payloads exchanged with the provider are what \<^verbatim>\<open>json\<close> produces: \<^verbatim>\<open>None\<close>, booleans,
  integers, floats, strings, lists and dictionaries with string keys. A dictionary is an
  association list in insertion order, read with \<open>map_of\<close>; a Python dictionary holds each key
  once. A string is a list of code points below 256.

  A float is infinite (\<open>FInf\<close>, with \<open>True\<close> for the negative one), not a number, or finite:
  \<open>FFinite m e\<close> stands for the number \<open>m * 2 ^ e\<close>, which every finite float is.
\<close>

datatype pyfloat = FFinite int int | FInf bool | FNaN

datatype pyval =
    PNone
  | PBool bool
  | PInt int
  | PFloat pyfloat
  | PStr string
  | PList "pyval list"
  | PDict "(string \<times> pyval) list"

text \<open>
  The exceptions the code can raise. \<open>TransportError\<close> stands for whatever
  \<^verbatim>\<open>requests\<close> raises (no connection, a body that is not JSON).
\<close>

datatype error =
    KeyError string
  | TypeError
  | ValueError
  | OverflowError
  | AssertionError
  | ServerResponseError
  | TransportError

definition bindE :: "error + 'a \<Rightarrow> ('a \<Rightarrow> error + 'b) \<Rightarrow> error + 'b" where
  "bindE m f = (case m of Inl e \<Rightarrow> Inl e | Inr x \<Rightarrow> f x)"

text \<open>\<^verbatim>\<open>d[k]\<close>, \<^verbatim>\<open>k in d\<close>, \<^verbatim>\<open>d.get(k)\<close> and \<^verbatim>\<open>d[k] = v\<close> on a dictionary.\<close>

definition getitem :: "(string \<times> pyval) list \<Rightarrow> string \<Rightarrow> error + pyval" where
  "getitem d k = (case map_of d k of None \<Rightarrow> Inl (KeyError k) | Some v \<Rightarrow> Inr v)"

definition contains :: "(string \<times> pyval) list \<Rightarrow> string \<Rightarrow> bool" where
  "contains d k = (case map_of d k of None \<Rightarrow> False | Some v \<Rightarrow> True)"

definition dict_get :: "(string \<times> pyval) list \<Rightarrow> string \<Rightarrow> pyval" where
  "dict_get d k = (case map_of d k of None \<Rightarrow> PNone | Some v \<Rightarrow> v)"

fun setitem :: "(string \<times> pyval) list \<Rightarrow> string \<Rightarrow> pyval \<Rightarrow> (string \<times> pyval) list" where
  "setitem [] k v = [(k, v)]"
| "setitem ((k', v') # d) k v = (if k' = k then (k, v) # d else (k', v') # setitem d k v)"

text \<open>\<^verbatim>\<open>v[k]\<close> with a string key on any value: only a dictionary can be subscripted so.\<close>

fun subscript :: "pyval \<Rightarrow> string \<Rightarrow> error + pyval" where
  "subscript (PDict d) k = getitem d k"
| "subscript v k = Inl TypeError"

text \<open>Truth value testing.\<close>

fun truthy :: "pyval \<Rightarrow> bool" where
  "truthy PNone = False"
| "truthy (PBool b) = b"
| "truthy (PInt n) = (n \<noteq> 0)"
| "truthy (PFloat (FFinite m e)) = (m \<noteq> 0)"
| "truthy (PFloat (FInf negative)) = True"
| "truthy (PFloat FNaN) = True"
| "truthy (PStr s) = (s \<noteq> [])"
| "truthy (PList xs) = (xs \<noteq> [])"
| "truthy (PDict d) = (d \<noteq> [])"

subsection \<open>\<^verbatim>\<open>str.upper\<close> and \<^verbatim>\<open>int\<close>\<close>

text \<open>
  \<^verbatim>\<open>str.upper\<close> on ASCII letters. Code points outside ASCII are left as they are: whatever
  Python makes of them, none of them upper-cases to \<^verbatim>\<open>M\<close> or \<^verbatim>\<open>X\<close>, and the code only
  compares the result with \<^verbatim>\<open>"MX"\<close>.
\<close>

definition upper_char :: "char \<Rightarrow> char" where
  "upper_char c =
     (let n = (of_char c :: nat) in if 97 \<le> n \<and> n \<le> 122 then char_of (n - 32) else c)"

definition upper :: "string \<Rightarrow> string" where
  "upper s = map upper_char s"

text \<open>
  \<^verbatim>\<open>int(s)\<close> on a string, base ten: white space is stripped at both ends, one sign may
  follow, then decimal digits, where a single underscore may stand between two digits.
  Below 256 the white space of \<^verbatim>\<open>int\<close> is 9 to 13, 32, 133 and 160, and the only
  decimal digits are \<^verbatim>\<open>0\<close> to \<^verbatim>\<open>9\<close>. A string with more digits than the interpreter's
  limit (\<^verbatim>\<open>sys.get_int_max_str_digits()\<close>, 4300 unless configured) is refused, whatever the
  digits are; underscores, sign and white space do not count.
\<close>

definition int_max_str_digits :: nat where
  "int_max_str_digits = 4300"

definition is_space :: "char \<Rightarrow> bool" where
  "is_space c =
     (let n = (of_char c :: nat) in (9 \<le> n \<and> n \<le> 13) \<or> n = 32 \<or> n = 133 \<or> n = 160)"

definition is_digit :: "char \<Rightarrow> bool" where
  "is_digit c = (let n = (of_char c :: nat) in 48 \<le> n \<and> n \<le> 57)"

definition digit_val :: "char \<Rightarrow> nat" where
  "digit_val c = of_char c - 48"

definition strip :: "string \<Rightarrow> string" where
  "strip s = rev (dropWhile is_space (rev (dropWhile is_space s)))"

fun parse_digits :: "nat \<Rightarrow> bool \<Rightarrow> string \<Rightarrow> nat option" where
  "parse_digits acc prev [] = (if prev then Some acc else None)"
| "parse_digits acc prev (c # cs) =
     (if is_digit c then parse_digits (10 * acc + digit_val c) True cs
      else if c = CHR ''_'' \<and> prev then parse_digits acc False cs
      else None)"

definition int_of_digits :: "string \<Rightarrow> error + int" where
  "int_of_digits s =
     (case parse_digits 0 False s of
        None \<Rightarrow> Inl ValueError
      | Some n \<Rightarrow>
          if int_max_str_digits < length (filter is_digit s) then Inl ValueError
          else Inr (int n))"

definition int_of_str :: "string \<Rightarrow> error + int" where
  "int_of_str s =
     (case strip s of
        [] \<Rightarrow> Inl ValueError
      | c # cs \<Rightarrow>
          if c = CHR ''-'' then bindE (int_of_digits cs) (\<lambda>n. Inr (- n))
          else if c = CHR ''+'' then int_of_digits cs
          else int_of_digits (c # cs))"

text \<open>\<^verbatim>\<open>int(x)\<close> on a float cuts the fraction off, towards zero.\<close>

definition float_trunc :: "int \<Rightarrow> int \<Rightarrow> int" where
  "float_trunc m e =
     (if 0 \<le> e then m * 2 ^ nat e
      else if 0 \<le> m then m div 2 ^ nat (- e)
      else - ((- m) div 2 ^ nat (- e)))"

fun py_int :: "pyval \<Rightarrow> error + int" where
  "py_int (PInt n) = Inr n"
| "py_int (PBool b) = Inr (if b then 1 else 0)"
| "py_int (PFloat (FFinite m e)) = Inr (float_trunc m e)"
| "py_int (PFloat (FInf negative)) = Inl OverflowError"
| "py_int (PFloat FNaN) = Inl ValueError"
| "py_int (PStr s) = int_of_str s"
| "py_int PNone = Inl TypeError"
| "py_int (PList xs) = Inl TypeError"
| "py_int (PDict d) = Inl TypeError"

text \<open>
  The numeral Python writes for an integer (\<^verbatim>\<open>str(n)\<close>, and \<^verbatim>\<open>json\<close> for a number), used
  below to say what \<^verbatim>\<open>int\<close> makes of a string that holds a number.
\<close>

fun decimal_nat :: "nat \<Rightarrow> string" where
  "decimal_nat n =
     (if n < 10 then [char_of (48 + n)]
      else decimal_nat (n div 10) @ [char_of (48 + n mod 10)])"

declare decimal_nat.simps [simp del]

definition decimal :: "int \<Rightarrow> string" where
  "decimal i = (if i < 0 then CHR ''-'' # decimal_nat (nat (- i)) else decimal_nat (nat i))"

section \<open>DNSRecord\<close>

text \<open>
  The attributes of a \<^verbatim>\<open>DNSRecord\<close>. \<^verbatim>\<open>__init__\<close> annotates \<^verbatim>\<open>record_type\<close>, \<^verbatim>\<open>hostname\<close>
  and \<^verbatim>\<open>destination\<close> as \<^verbatim>\<open>str\<close> and stores what it is given. \<open>'t\<close> is what these three
  attributes hold: strings in a \<open>DNSRecord\<close>, the record of the annotations, and any value in
  what \<^verbatim>\<open>deserialize\<close> builds, which passes the values of the payload on as they are. The id
  and the priority of a deserialized record come out of \<^verbatim>\<open>int\<close>.
\<close>

record 't DNSRecord_of =
  record_id :: "int option"
  record_type :: 't
  hostname :: 't
  destination :: 't
  priority :: "int option"
  deleted :: bool

type_synonym DNSRecord = "string DNSRecord_of"

definition DNSRecord_init ::
  "int option \<Rightarrow> 't \<Rightarrow> 't \<Rightarrow> 't \<Rightarrow> int option \<Rightarrow> 't DNSRecord_of" where
  "DNSRecord_init rid rtype host dest prio =
     \<lparr>record_id = rid, record_type = rtype, hostname = host, destination = dest,
      priority = prio, deleted = False\<rparr>"

definition DNSRecord_new :: "string \<Rightarrow> string \<Rightarrow> string \<Rightarrow> int option \<Rightarrow> DNSRecord" where
  "DNSRecord_new rtype host dest prio =
     (let prio' = (if upper rtype = ''MX'' then (if prio = None then Some 10 else prio) else prio)
      in DNSRecord_init None rtype host dest prio')"

definition cmpkey :: "DNSRecord \<Rightarrow> string \<times> string \<times> string \<times> int option" where
  "cmpkey self = (record_type self, hostname self, destination self, priority self)"

definition DNSRecord_delete :: "'t DNSRecord_of \<Rightarrow> 't DNSRecord_of" where
  "DNSRecord_delete self = self\<lparr>deleted := True\<rparr>"

text \<open>
  \<^verbatim>\<open>DNSRecord.deserialize\<close> on a dictionary. The keyword arguments of the constructor call are
  evaluated from left to right, so a missing \<^verbatim>\<open>id\<close> is reported before a missing \<^verbatim>\<open>type\<close>.
  The values under \<^verbatim>\<open>type\<close>, \<^verbatim>\<open>hostname\<close> and \<^verbatim>\<open>destination\<close> are stored unchecked.
\<close>

definition deserialize_dict :: "(string \<times> pyval) list \<Rightarrow> error + pyval DNSRecord_of" where
  "deserialize_dict data =
     bindE (if contains data ''priority''
            then bindE (getitem data ''priority'') (\<lambda>v.
                 bindE (py_int v) (\<lambda>p. Inr (if p = 0 then None else Some p)))
            else Inr None) (\<lambda>prio.
     bindE (getitem data ''id'') (\<lambda>idv.
     bindE (py_int idv) (\<lambda>rid.
     bindE (getitem data ''type'') (\<lambda>rtype.
     bindE (getitem data ''hostname'') (\<lambda>host.
     bindE (getitem data ''destination'') (\<lambda>dest.
       let record = DNSRecord_init (Some rid) rtype host dest prio
       in Inr (if truthy (dict_get data ''delete'') then DNSRecord_delete record
               else record)))))))"

text \<open>
  On a value that is not a dictionary, \<^verbatim>\<open>"priority" in data\<close> or the first subscript with a
  string key raises \<^verbatim>\<open>TypeError\<close>.
\<close>

fun DNSRecord_deserialize :: "pyval \<Rightarrow> error + pyval DNSRecord_of" where
  "DNSRecord_deserialize (PDict data) = deserialize_dict data"
| "DNSRecord_deserialize v = Inl TypeError"

text \<open>
  The object that holds the strings of a record of the annotations: what \<^verbatim>\<open>deserialize\<close>
  returns when it returns that record.
\<close>

definition as_object :: "DNSRecord \<Rightarrow> pyval DNSRecord_of" where
  "as_object r =
     \<lparr>record_id = record_id r, record_type = PStr (record_type r),
      hostname = PStr (hostname r), destination = PStr (destination r),
      priority = priority r, deleted = deleted r\<rparr>"

definition py_opt_int :: "int option \<Rightarrow> pyval" where
  "py_opt_int x = (case x of None \<Rightarrow> PNone | Some n \<Rightarrow> PInt n)"

text \<open>\<^verbatim>\<open>DNSRecord.serialize\<close>: \<open>PNone\<close> is the \<^verbatim>\<open>None\<close> the method returns for a record to omit.\<close>

definition DNSRecord_serialize :: "DNSRecord \<Rightarrow> pyval" where
  "DNSRecord_serialize self =
     (if deleted self \<and> record_id self = None then PNone
      else
        let result = [(''id'', py_opt_int (record_id self)),
                      (''type'', PStr (record_type self)),
                      (''hostname'', PStr (hostname self)),
                      (''destination'', PStr (destination self)),
                      (''deleterecord'', PBool (deleted self)),
                      (''state'', PNone)]
        in PDict (case priority self of
                    None \<Rightarrow> result
                  | Some p \<Rightarrow> setitem result ''priority'' (PInt p)))"

text \<open>
  The method as a call on the object: the value returned and the fields of \<^verbatim>\<open>self\<close> when it
  returns. The body assigns to the local \<^verbatim>\<open>result\<close> only.
\<close>

definition DNSRecord_serialize_call :: "DNSRecord \<Rightarrow> pyval \<times> DNSRecord" where
  "DNSRecord_serialize_call self = (DNSRecord_serialize self, self)"

text \<open>
  An argument of any class: a \<^verbatim>\<open>DNSRecord\<close> or something else. \<^verbatim>\<open>__eq__\<close> compares the keys of
  two records with \<^verbatim>\<open>==\<close> on tuples of strings and an optional integer, which is equality of
  the components. \<^verbatim>\<open>hash\<close> on such a tuple is a function of the interpreter's, taken as a
  parameter.
\<close>

datatype 'r pyobj = Obj_DNSRecord 'r | Obj_Other pyval

fun DNSRecord_eq :: "DNSRecord \<Rightarrow> DNSRecord pyobj \<Rightarrow> bool" where
  "DNSRecord_eq self (Obj_DNSRecord other) = (cmpkey self = cmpkey other)"
| "DNSRecord_eq self (Obj_Other v) = False"

definition DNSRecord_hash ::
  "(string \<times> string \<times> string \<times> int option \<Rightarrow> int) \<Rightarrow> DNSRecord \<Rightarrow> int" where
  "DNSRecord_hash py_hash self = py_hash (cmpkey self)"

section \<open>DNSRecordSet\<close>

text \<open>
  The set holds its records by position. The only change a record ever undergoes is
  \<^verbatim>\<open>delete()\<close>, which sets a flag, and the set selects records by fields that never change, so
  one object held at two positions is the same as two records with the same fields. \<open>'r\<close> is
  what the set holds: records of the annotations in a \<open>DNSRecordSet\<close>, and records as
  \<^verbatim>\<open>DNSRecord.deserialize\<close> builds them in the set that \<^verbatim>\<open>DNSRecordSet.deserialize\<close> returns.
\<close>

record 'r DNSRecordSet_of =
  domainname :: string
  records :: "'r list"

type_synonym DNSRecordSet = "DNSRecord DNSRecordSet_of"

definition DNSRecordSet_init :: "string \<Rightarrow> 'r DNSRecordSet_of" where
  "DNSRecordSet_init dname = \<lparr>domainname = dname, records = []\<rparr>"

definition delete_all :: "'t DNSRecord_of DNSRecordSet_of \<Rightarrow> 't DNSRecord_of DNSRecordSet_of" where
  "delete_all self = self\<lparr>records := map DNSRecord_delete (records self)\<rparr>"

definition delete_hostname :: "DNSRecordSet \<Rightarrow> string \<Rightarrow> DNSRecordSet" where
  "delete_hostname self host =
     self\<lparr>records := map (\<lambda>record. if hostname record = host then DNSRecord_delete record
                                    else record) (records self)\<rparr>"

text \<open>
  \<^verbatim>\<open>add\<close> gives the outcome of the call (the exception, or the object returned, which is
  \<^verbatim>\<open>self\<close>) and the set as the call leaves it. Its check is an \<^verbatim>\<open>assert\<close>, taken as
  enabled, as the interpreter has it unless told otherwise.
\<close>

fun add ::
  "'r DNSRecordSet_of \<Rightarrow> 'r pyobj \<Rightarrow> (error + 'r DNSRecordSet_of) \<times> 'r DNSRecordSet_of" where
  "add self (Obj_DNSRecord dns_record) =
     (let self' = self\<lparr>records := records self @ [dns_record]\<rparr> in (Inr self', self'))"
| "add self (Obj_Other v) = (Inl AssertionError, self)"

fun from_recoTds :: "string \<Rightarrow> DNSRecord list \<Rightarrow> DNSRecordSet" where
  "from_recoTds dname dns_records =
     fold (\<lambda>dns_record dns_record_set. snd (add dns_record_set (Obj_DNSRecord dns_record)))
       dns_records (DNSRecordSet_init dname)"

text \<open>
  What a \<^verbatim>\<open>for\<close> loop runs over: the elements of a list, the characters of a string, the
  keys of a dictionary; the other values are not iterable.
\<close>

fun py_iter :: "pyval \<Rightarrow> error + pyval list" where
  "py_iter (PList xs) = Inr xs"
| "py_iter (PStr s) = Inr (map (\<lambda>c. PStr [c]) s)"
| "py_iter (PDict d) = Inr (map (\<lambda>kv. PStr (fst kv)) d)"
| "py_iter v = Inl TypeError"

fun deserialize_loop ::
  "pyval DNSRecord_of DNSRecordSet_of \<Rightarrow> pyval list \<Rightarrow> error + pyval DNSRecord_of DNSRecordSet_of"
  where
  "deserialize_loop record_set [] = Inr record_set"
| "deserialize_loop record_set (record_data # rest) =
     bindE (DNSRecord_deserialize record_data) (\<lambda>r.
     deserialize_loop (snd (add record_set (Obj_DNSRecord r))) rest)"

fun DNSRecordSet_deserialize ::
  "string \<Rightarrow> pyval \<Rightarrow> error + pyval DNSRecord_of DNSRecordSet_of" where
  "DNSRecordSet_deserialize dname (PDict data) =
     bindE (getitem data ''dnsrecords'') (\<lambda>v.
     bindE (py_iter v) (\<lambda>items.
     deserialize_loop (DNSRecordSet_init dname) items))"
| "DNSRecordSet_deserialize dname v = Inl AssertionError"

definition DNSRecordSet_serialize :: "DNSRecordSet \<Rightarrow> pyval" where
  "DNSRecordSet_serialize self =
     (let recs = map DNSRecord_serialize (records self);
          recs = filter (\<lambda>record. record \<noteq> PNone) recs
      in PDict [(''dnsrecords'', PList recs)])"

text \<open>
  The same method as a call on the set: the first comprehension calls \<^verbatim>\<open>serialize\<close> on each
  record in turn; the result is the payload and the set as the call leaves it.
\<close>

fun serialize_each :: "DNSRecord list \<Rightarrow> pyval list \<times> DNSRecord list" where
  "serialize_each [] = ([], [])"
| "serialize_each (dns_record # rest) =
     (case DNSRecord_serialize_call dns_record of (v, dns_record') \<Rightarrow>
      case serialize_each rest of (vs, rest') \<Rightarrow> (v # vs, dns_record' # rest'))"

definition DNSRecordSet_serialize_call :: "DNSRecordSet \<Rightarrow> pyval \<times> DNSRecordSet" where
  "DNSRecordSet_serialize_call self =
     (case serialize_each (records self) of (recs, records') \<Rightarrow>
        (PDict [(''dnsrecords'', PList (filter (\<lambda>record. record \<noteq> PNone) recs))],
         self\<lparr>records := records'\<rparr>))"

definition DNSRecordSet_len :: "'r DNSRecordSet_of \<Rightarrow> nat" where
  "DNSRecordSet_len self = length (records self)"

section \<open>NetcupConnection\<close>

text \<open>
  The HTTP session is outside the repository. \<open>post\<close> stands for
  \<^verbatim>\<open>self._session.post(uri, data = json.dumps(payload))\<close> followed by reading
  \<^verbatim>\<open>status_code\<close> and \<^verbatim>\<open>json()\<close>: it gives the dictionary that \<^verbatim>\<open>_action\<close> returns, here a
  record of its two keys, or the exception of the transport. Every statement below holds for
  every such function.
\<close>

record response =
  status :: int
  data :: pyval

type_synonym transport = "string \<Rightarrow> pyval \<Rightarrow> error + response"

record NetcupConnection =
  uri :: string
  customer :: string
  api_key :: string
  api_password :: string
  session_id :: pyval

definition NetcupConnection_init :: "string \<Rightarrow> string \<Rightarrow> string \<Rightarrow> string \<Rightarrow> NetcupConnection" where
  "NetcupConnection_init json_endpoint_uri cust key password =
     \<lparr>uri = json_endpoint_uri, customer = cust, api_key = key, api_password = password,
      session_id = PNone\<rparr>"

definition logged_in :: "NetcupConnection \<Rightarrow> bool" where
  "logged_in self = (session_id self \<noteq> PNone)"

definition action ::
  "transport \<Rightarrow> NetcupConnection \<Rightarrow> string \<Rightarrow> (string \<times> pyval) list \<Rightarrow> error + response" where
  "action post self action_name params =
     post (uri self) (PDict [(''action'', PStr action_name), (''param'', PDict params)])"

text \<open>
  A session-scoped call gives its outcome and the lines it printed to \<^verbatim>\<open>sys.stderr\<close>. The
  outcome of \<^verbatim>\<open>_session_action\<close> is \<open>Inr None\<close> for the bare \<^verbatim>\<open>return\<close>. The message is
  printed as the source has it, with its \<^verbatim>\<open>%s\<close> unfilled.
\<close>

definition no_session_warning :: string where
  "no_session_warning = ''Cannot execute '%s' without a valid session.''"

definition session_action ::
  "transport \<Rightarrow> NetcupConnection \<Rightarrow> string \<Rightarrow> (string \<times> pyval) list option
     \<Rightarrow> (error + response option) \<times> string list" where
  "session_action post self action_name params =
     (if session_id self = PNone then (Inr None, [no_session_warning])
      else
        let params = (case params of None \<Rightarrow> [] | Some ps \<Rightarrow> ps);
            params = setitem params ''apikey'' (PStr (api_key self));
            params = setitem params ''apisessionid'' (session_id self);
            params = setitem params ''customernumber'' (PStr (customer self))
        in (bindE (action post self action_name params) (\<lambda>r. Inr (Some r)), []))"

text \<open>\<^verbatim>\<open>login\<close> gives its outcome and the connection as the call leaves it.\<close>

definition login ::
  "transport \<Rightarrow> NetcupConnection \<Rightarrow> (error + response) \<times> NetcupConnection" where
  "login post self =
     (case action post self ''login''
             [(''apikey'', PStr (api_key self)),
              (''apipassword'', PStr (api_password self)),
              (''customernumber'', PStr (customer self))] of
        Inl e \<Rightarrow> (Inl e, self)
      | Inr resp \<Rightarrow>
          if status resp = 200
          then (case bindE (subscript (data resp) ''responsedata'')
                       (\<lambda>rd. subscript rd ''apisessionid'') of
                  Inl e \<Rightarrow> (Inl e, self)
                | Inr sid \<Rightarrow> (Inr resp, self\<lparr>session_id := sid\<rparr>))
          else (Inr resp, self))"

definition logout ::
  "transport \<Rightarrow> NetcupConnection \<Rightarrow> (error + response option) \<times> string list" where
  "logout post self = session_action post self ''logout'' None"

definition list_all_domains ::
  "transport \<Rightarrow> NetcupConnection \<Rightarrow> (error + response option) \<times> string list" where
  "list_all_domains post self = session_action post self ''listallDomains'' None"

text \<open>
  \<^verbatim>\<open>response["status"]\<close> on what \<^verbatim>\<open>_session_action\<close> returned: \<^verbatim>\<open>None\<close> cannot be
  subscripted.
\<close>

fun the_response :: "response option \<Rightarrow> error + response" where
  "the_response None = Inl TypeError"
| "the_response (Some r) = Inr r"

definition info_dns_records ::
  "transport \<Rightarrow> NetcupConnection \<Rightarrow> string
     \<Rightarrow> (error + pyval DNSRecord_of DNSRecordSet_of) \<times> string list" where
  "info_dns_records post self dname =
     (case session_action post self ''infoDnsRecords'' (Some [(''domainname'', PStr dname)]) of
        (outcome, printed) \<Rightarrow>
          (bindE outcome (\<lambda>r.
           bindE (the_response r) (\<lambda>resp.
             if status resp \<noteq> 200 then Inl ServerResponseError
             else bindE (subscript (data resp) ''status'') (\<lambda>st.
                  if st \<noteq> PStr ''success''
                  then bindE (subscript (data resp) ''longmessage'') (\<lambda>msg.
                       Inl ServerResponseError)
                  else bindE (subscript (data resp) ''responsedata'') (\<lambda>rd.
                       DNSRecordSet_deserialize dname rd)))),
           printed))"

definition update_dns_records ::
  "transport \<Rightarrow> NetcupConnection \<Rightarrow> DNSRecordSet
     \<Rightarrow> (error + pyval DNSRecord_of DNSRecordSet_of) \<times> string list" where
  "update_dns_records post self dns_records =
     (case session_action post self ''updateDnsRecords''
             (Some [(''domainname'', PStr (domainname dns_records)),
                    (''dnsrecordset'', DNSRecordSet_serialize dns_records)]) of
        (outcome, printed) \<Rightarrow>
          (bindE outcome (\<lambda>r.
           bindE (the_response r) (\<lambda>resp.
           bindE (if status resp = 200 then Inr True
                  else bindE (subscript (data resp) ''status'') (\<lambda>st.
                       Inr (st \<noteq> PStr ''ok''))) (\<lambda>proceed.
             if proceed
             then bindE (subscript (data resp) ''responsedata'') (\<lambda>rd.
                  DNSRecordSet_deserialize (domainname dns_records) rd)
             else Inl ServerResponseError))),
           printed))"

section \<open>What \<^verbatim>\<open>int\<close> reads\<close>

text \<open>
  \<^verbatim>\<open>int\<close> reads the numeral of an integer back as that integer, up to the limit on the number
  of digits, and refuses it beyond.
\<close>

lemma digit_char:
  "d < 10 \<Longrightarrow> is_digit (char_of (48 + d)) \<and> digit_val (char_of (48 + d)) = d
     \<and> \<not> is_space (char_of (48 + d)) \<and> char_of (48 + d) \<noteq> CHR ''-''
     \<and> char_of (48 + d) \<noteq> CHR ''+''"
  for d :: nat
  by (auto simp: is_digit_def digit_val_def is_space_def Let_def char_of_eq_iff take_bit_eq_mod)

lemma parse_digits_run:
  "\<forall>c \<in> set xs. is_digit c \<Longrightarrow>
     parse_digits acc prev (xs @ ys)
       = parse_digits (foldl (\<lambda>a c. 10 * a + digit_val c) acc xs) (prev \<or> xs \<noteq> []) ys"
  by (induction xs arbitrary: acc prev) simp_all

lemma decimal_nat_digits:
  "(\<forall>c \<in> set (decimal_nat n). is_digit c) \<and> decimal_nat n \<noteq> []
     \<and> foldl (\<lambda>a c. 10 * a + digit_val c) 0 (decimal_nat n) = n"
proof (induction n rule: decimal_nat.induct)
  case (1 n)
  show ?case
  proof (cases "n < 10")
    case True
    then show ?thesis
      using digit_char [of n] by (simp add: decimal_nat.simps [of n])
  next
    case False
    have m: "n mod 10 < 10" by simp
    from False 1 digit_char [OF m] show ?thesis
      by (simp add: decimal_nat.simps [of n])
  qed
qed

lemma parse_decimal_nat: "parse_digits 0 False (decimal_nat n) = Some n"
  using parse_digits_run [of "decimal_nat n" 0 False "[]"] decimal_nat_digits [of n]
  by simp


lemma strip_id:
  "s \<noteq> [] \<Longrightarrow> \<not> is_space (hd s) \<Longrightarrow> \<not> is_space (last s) \<Longrightarrow> strip s = s"
proof -
  assume a: "s \<noteq> []" "\<not> is_space (hd s)" "\<not> is_space (last s)"
  then have "dropWhile is_space s = s" by (cases s) simp_all
  moreover from a have "dropWhile is_space (rev s) = rev s"
    by (cases "rev s") (simp_all add: last_rev [symmetric] del: last_rev)
  ultimately show ?thesis by (simp add: strip_def)
qed

lemma decimal_nat_ends:
  "is_digit (hd (decimal_nat n)) \<and> is_digit (last (decimal_nat n))"
  using decimal_nat_digits [of n] by (cases "decimal_nat n") auto

lemma digit_not_space: "is_digit c \<Longrightarrow> \<not> is_space c \<and> c \<noteq> CHR ''-'' \<and> c \<noteq> CHR ''+''"
  by (auto simp: is_digit_def is_space_def Let_def)

lemma decimal_nat_count: "length (filter is_digit (decimal_nat n)) = length (decimal_nat n)"
  using decimal_nat_digits [of n] by simp

lemma int_of_digits_decimal_nat:
  "int_of_digits (decimal_nat n) =
     (if int_max_str_digits < length (decimal_nat n) then Inl ValueError else Inr (int n))"
  by (simp add: int_of_digits_def parse_decimal_nat decimal_nat_count)

lemma int_of_str_decimal:
  "int_of_str (decimal i) =
     (if int_max_str_digits < length (decimal_nat (nat \<bar>i\<bar>)) then Inl ValueError else Inr i)"
proof (cases "i < 0")
  case True
  let ?ds = "decimal_nat (nat (- i))"
  have ne: "?ds \<noteq> []" using decimal_nat_digits by blast
  have "\<not> is_space (last (CHR ''-'' # ?ds))"
    using decimal_nat_ends [of "nat (- i)"] digit_not_space ne by simp
  moreover have "\<not> is_space (CHR ''-'')" by (simp add: is_space_def)
  ultimately have "strip (CHR ''-'' # ?ds) = CHR ''-'' # ?ds"
    by (intro strip_id) simp_all
  moreover from True have "nat \<bar>i\<bar> = nat (- i)" by simp
  ultimately show ?thesis
    using True
    by (simp add: int_of_str_def decimal_def int_of_digits_decimal_nat bindE_def)
next
  case False
  let ?ds = "decimal_nat (nat i)"
  obtain c cs where cs: "?ds = c # cs"
    using decimal_nat_digits [of "nat i"] by (cases ?ds) auto
  have dg: "is_digit c" "is_digit (last ?ds)"
    using decimal_nat_ends [of "nat i"] cs by simp_all
  have st: "strip ?ds = ?ds"
    using dg digit_not_space cs by (intro strip_id) auto
  have "int_of_str ?ds = int_of_digits ?ds"
    using dg(1) digit_not_space [of c] by (simp add: int_of_str_def st [unfolded cs] cs)
  moreover from False have "nat \<bar>i\<bar> = nat i" by simp
  ultimately show ?thesis
    using False by (simp add: decimal_def int_of_digits_decimal_nat)
qed

lemma int_of_str_decimal_Inr: "int_of_str (decimal i) = Inr x \<Longrightarrow> x = i"
  by (simp add: int_of_str_decimal split: if_splits)

lemma length_decimal_nat: "0 < k \<Longrightarrow> n < 10 ^ k \<Longrightarrow> length (decimal_nat n) \<le> k"
proof (induction n arbitrary: k rule: decimal_nat.induct)
  case (1 n)
  show ?case
  proof (cases "n < 10")
    case True
    with 1(2) show ?thesis by (simp add: decimal_nat.simps [of n])
  next
    case False
    obtain j where j: "k = Suc j" using 1(2) by (cases k) simp_all
    with 1(3) have d: "n div 10 < 10 ^ j" by (simp add: less_mult_imp_div_less mult.commute)
    from False d have "0 < j" by (cases j) simp_all
    with 1(1) [OF False _ d] have "length (decimal_nat (n div 10)) \<le> j" by simp
    with False j show ?thesis by (simp add: decimal_nat.simps [of n])
  qed
qed

lemma int_of_str_decimal_small:
  "\<bar>i\<bar> < 10 ^ int_max_str_digits \<Longrightarrow> int_of_str (decimal i) = Inr i"
proof -
  assume a: "\<bar>i\<bar> < 10 ^ int_max_str_digits"
  have "nat \<bar>i\<bar> < 10 ^ int_max_str_digits"
  proof -
    from a have "int (nat \<bar>i\<bar>) < int (10 ^ int_max_str_digits)" by simp
    then show ?thesis by (simp only: of_nat_less_iff)
  qed
  moreover have "0 < int_max_str_digits" by (simp add: int_max_str_digits_def)
  ultimately have "length (decimal_nat (nat \<bar>i\<bar>)) \<le> int_max_str_digits"
    by (intro length_decimal_nat)
  then show ?thesis by (simp add: int_of_str_decimal)
qed

lemma small_numerals:
  "int_of_str ''5'' = Inr 5" "int_of_str ''0'' = Inr 0"
  by (simp_all add: int_of_str_def strip_def is_space_def int_of_digits_def is_digit_def
        digit_val_def int_max_str_digits_def)

text \<open>A string with more digits than the limit is refused.\<close>

lemma filter_digit_dropWhile: "filter is_digit (dropWhile is_space s) = filter is_digit s"
  using digit_not_space by (induction s) auto

lemma filter_digit_strip: "filter is_digit (strip s) = filter is_digit s"
  by (simp add: strip_def rev_filter [symmetric] filter_digit_dropWhile)

lemma int_of_digits_too_long:
  "int_max_str_digits < length (filter is_digit s) \<Longrightarrow> int_of_digits s = Inl ValueError"
  by (simp add: int_of_digits_def split: option.splits)

lemma int_of_str_too_long:
  assumes "int_max_str_digits < length (filter is_digit s)"
  shows "int_of_str s = Inl ValueError"
proof (cases "strip s")
  case Nil
  then show ?thesis by (simp add: int_of_str_def)
next
  case (Cons c cs)
  from assms have l: "int_max_str_digits < length (filter is_digit (c # cs))"
    using filter_digit_strip [of s] Cons by simp
  have s: "\<not> is_digit (CHR ''-'')" "\<not> is_digit (CHR ''+'')"
    by (simp_all add: is_digit_def)
  show ?thesis
  proof (cases "c = CHR ''-'' \<or> c = CHR ''+''")
    case True
    with l s have "int_of_digits cs = Inl ValueError"
      by (intro int_of_digits_too_long) auto
    with True Cons show ?thesis by (auto simp: int_of_str_def bindE_def)
  next
    case False
    with l Cons show ?thesis by (simp add: int_of_str_def int_of_digits_too_long)
  qed
qed

section \<open>Properties of DNSRecord\<close>

subsection \<open>The type test of the constructor\<close>

lemma upper_char_M: "upper_char c = CHR ''M'' \<longleftrightarrow> c = CHR ''M'' \<or> c = CHR ''m''"
  by (cases c) (auto simp: upper_char_def Let_def char_of_def bit_simps split: if_splits)

lemma upper_char_X: "upper_char c = CHR ''X'' \<longleftrightarrow> c = CHR ''X'' \<or> c = CHR ''x''"
  by (cases c) (auto simp: upper_char_def Let_def char_of_def bit_simps split: if_splits)

lemma upper_MX_iff:
  "upper rtype = ''MX'' \<longleftrightarrow> rtype \<in> {''MX'', ''Mx'', ''mX'', ''mx''}"
proof -
  have "upper rtype = ''MX'' \<longleftrightarrow>
        (\<exists>a b. rtype = [a, b] \<and> upper_char a = CHR ''M'' \<and> upper_char b = CHR ''X'')"
    unfolding upper_def by (auto simp: map_eq_Cons_conv)
  also have "\<dots> \<longleftrightarrow> rtype \<in> {''MX'', ''Mx'', ''mX'', ''mx''}"
    unfolding upper_char_M upper_char_X by auto
  finally show ?thesis .
qed

text \<open>
  C5. For every type, hostname and destination, \<^verbatim>\<open>DNSRecord.new\<close> builds a record without id,
  not marked deleted, with the three fields as given. Its priority is 10 when the type in upper
  case is \<^verbatim>\<open>MX\<close> and no priority was passed, and the value passed (\<^verbatim>\<open>None\<close> included) in
  every other case.
\<close>

theorem new_record_priority:
  "record_id (DNSRecord_new rtype host dest prio) = None
   \<and> record_type (DNSRecord_new rtype host dest prio) = rtype
   \<and> hostname (DNSRecord_new rtype host dest prio) = host
   \<and> destination (DNSRecord_new rtype host dest prio) = dest
   \<and> deleted (DNSRecord_new rtype host dest prio) = False
   \<and> priority (DNSRecord_new rtype host dest prio) =
       (if upper rtype = ''MX'' \<and> prio = None then Some 10 else prio)"
  by (simp add: DNSRecord_new_def DNSRecord_init_def)

theorem new_record_priority_witness:
  "priority (DNSRecord_new ''mx'' ''@'' ''mail.example.com'' None) = Some 10
   \<and> record_id (DNSRecord_new ''mx'' ''@'' ''mail.example.com'' None) = None"
  using new_record_priority [of "''mx''" "''@''" "''mail.example.com''" None]
  by (simp add: upper_MX_iff)

subsection \<open>Equality and hashing\<close>

text \<open>
  C6. Two records are equal exactly when type, hostname, destination and priority agree. The id
  and the delete flag change neither the equality nor the hash, equal records have equal hashes,
  and records with different destinations are unequal.
\<close>

theorem record_equality:
  "(DNSRecord_eq r (Obj_DNSRecord r') \<longleftrightarrow>
      record_type r = record_type r' \<and> hostname r = hostname r'
      \<and> destination r = destination r' \<and> priority r = priority r')
   \<and> DNSRecord_eq (r\<lparr>record_id := i, deleted := b\<rparr>)
        (Obj_DNSRecord (r'\<lparr>record_id := i', deleted := b'\<rparr>))
      = DNSRecord_eq r (Obj_DNSRecord r')
   \<and> DNSRecord_hash py_hash (r\<lparr>record_id := i, deleted := b\<rparr>) = DNSRecord_hash py_hash r
   \<and> (DNSRecord_eq r (Obj_DNSRecord r') \<longrightarrow> DNSRecord_hash py_hash r = DNSRecord_hash py_hash r')
   \<and> (destination r \<noteq> destination r' \<longrightarrow> \<not> DNSRecord_eq r (Obj_DNSRecord r'))"
  by (simp add: cmpkey_def DNSRecord_hash_def)

theorem record_equality_witness:
  "DNSRecord_eq (DNSRecord_init (Some 1) ''A'' ''www'' ''1.2.3.4'' None)
     (Obj_DNSRecord (DNSRecord_delete (DNSRecord_init (Some 2) ''A'' ''www'' ''1.2.3.4'' None)))
   \<and> DNSRecord_hash (\<lambda>k. int (length (fst k)))
        (DNSRecord_init (Some 1) ''A'' ''www'' ''1.2.3.4'' None)
     = DNSRecord_hash (\<lambda>k. int (length (fst k)))
        (DNSRecord_delete (DNSRecord_init (Some 2) ''A'' ''www'' ''1.2.3.4'' None))
   \<and> \<not> DNSRecord_eq (DNSRecord_init (Some 1) ''A'' ''www'' ''1.2.3.4'' None)
     (Obj_DNSRecord (DNSRecord_init (Some 1) ''A'' ''www'' ''1.2.3.5'' None))"
  using record_equality [where r = "DNSRecord_init (Some 1) ''A'' ''www'' ''1.2.3.4'' None"
      and r' = "DNSRecord_delete (DNSRecord_init (Some 2) ''A'' ''www'' ''1.2.3.4'' None)"
      and py_hash = "\<lambda>k. int (length (fst k))"]
    record_equality [where r = "DNSRecord_init (Some 1) ''A'' ''www'' ''1.2.3.4'' None"
      and r' = "DNSRecord_init (Some 1) ''A'' ''www'' ''1.2.3.5'' None"]
  by (simp add: DNSRecord_init_def DNSRecord_delete_def)

subsection \<open>Serialisation\<close>

text \<open>
  C3. \<^verbatim>\<open>DNSRecord.serialize\<close> returns \<^verbatim>\<open>None\<close> exactly when the record is marked deleted and
  has no id. In every other case it returns a dictionary whose keys are \<^verbatim>\<open>id\<close>, \<^verbatim>\<open>type\<close>,
  \<^verbatim>\<open>hostname\<close>, \<^verbatim>\<open>destination\<close>, \<^verbatim>\<open>deleterecord\<close> (the delete flag), \<^verbatim>\<open>state\<close> (always
  \<^verbatim>\<open>None\<close>) and, only for a record with a priority, \<^verbatim>\<open>priority\<close>.
  \<^verbatim>\<open>DNSRecordSet.serialize\<close> wraps under \<^verbatim>\<open>dnsrecords\<close> the payloads of the records that are
  not both deleted and without id, in the order of the set.
\<close>

theorem serialize_shape:
  "(DNSRecord_serialize r = PNone \<longleftrightarrow> deleted r \<and> record_id r = None)
   \<and> (\<not> (deleted r \<and> record_id r = None) \<longrightarrow>
        (\<exists>d. DNSRecord_serialize r = PDict d
           \<and> distinct (map fst d)
           \<and> set (map fst d) =
               {''id'', ''type'', ''hostname'', ''destination'', ''deleterecord'', ''state''}
               \<union> (if priority r = None then {} else {''priority''})
           \<and> map_of d ''id'' = Some (py_opt_int (record_id r))
           \<and> map_of d ''type'' = Some (PStr (record_type r))
           \<and> map_of d ''hostname'' = Some (PStr (hostname r))
           \<and> map_of d ''destination'' = Some (PStr (destination r))
           \<and> map_of d ''deleterecord'' = Some (PBool (deleted r))
           \<and> map_of d ''state'' = Some PNone
           \<and> map_of d ''priority'' = map_option PInt (priority r)))
   \<and> DNSRecordSet_serialize rs =
       PDict [(''dnsrecords'',
               PList (map DNSRecord_serialize
                        (filter (\<lambda>x. \<not> (deleted x \<and> record_id x = None)) (records rs))))]"
proof -
  have a: "DNSRecord_serialize x = PNone \<longleftrightarrow> deleted x \<and> record_id x = None" for x
    by (simp add: DNSRecord_serialize_def Let_def)
  have b: "filter (\<lambda>v. v \<noteq> PNone) (map DNSRecord_serialize xs) =
           map DNSRecord_serialize (filter (\<lambda>x. \<not> (deleted x \<and> record_id x = None)) xs)" for xs
    by (induction xs) (simp_all add: a)
  have c: "DNSRecordSet_serialize rs =
       PDict [(''dnsrecords'',
               PList (map DNSRecord_serialize
                        (filter (\<lambda>x. \<not> (deleted x \<and> record_id x = None)) (records rs))))]"
    by (simp add: DNSRecordSet_serialize_def Let_def b)
  have d: "\<not> (deleted r \<and> record_id r = None) \<longrightarrow>
        (\<exists>d. DNSRecord_serialize r = PDict d
           \<and> distinct (map fst d)
           \<and> set (map fst d) =
               {''id'', ''type'', ''hostname'', ''destination'', ''deleterecord'', ''state''}
               \<union> (if priority r = None then {} else {''priority''})
           \<and> map_of d ''id'' = Some (py_opt_int (record_id r))
           \<and> map_of d ''type'' = Some (PStr (record_type r))
           \<and> map_of d ''hostname'' = Some (PStr (hostname r))
           \<and> map_of d ''destination'' = Some (PStr (destination r))
           \<and> map_of d ''deleterecord'' = Some (PBool (deleted r))
           \<and> map_of d ''state'' = Some PNone
           \<and> map_of d ''priority'' = map_option PInt (priority r))"
    by (cases "priority r") (auto simp: DNSRecord_serialize_def Let_def)
  from a [of r] c d show ?thesis by blast
qed


theorem serialize_shape_witness:
  "DNSRecord_serialize (DNSRecord_delete (DNSRecord_new ''A'' ''www'' ''1.2.3.4'' None)) = PNone
   \<and> DNSRecord_serialize (DNSRecord_delete (DNSRecord_init (Some 7) ''A'' ''www'' ''1.2.3.4'' None))
       \<noteq> PNone
   \<and> (\<exists>d. DNSRecord_serialize (DNSRecord_delete (DNSRecord_init (Some 7) ''A'' ''www'' ''1.2.3.4'' None))
             = PDict d
          \<and> map_of d ''id'' = Some (PInt 7)
          \<and> map_of d ''deleterecord'' = Some (PBool True)
          \<and> map_of d ''state'' = Some PNone
          \<and> map_of d ''priority'' = None)"
  using serialize_shape [where r = "DNSRecord_delete (DNSRecord_new ''A'' ''www'' ''1.2.3.4'' None)"]
    serialize_shape
      [where r = "DNSRecord_delete (DNSRecord_init (Some 7) ''A'' ''www'' ''1.2.3.4'' None)"]
  by (auto simp: DNSRecord_delete_def DNSRecord_new_def DNSRecord_init_def py_opt_int_def)

lemma serialize_each_eq:
  "serialize_each xs = (map DNSRecord_serialize xs, xs)"
  by (induction xs) (simp_all add: DNSRecord_serialize_call_def)

text \<open>
  C10. Neither \<^verbatim>\<open>serialize\<close> changes the object it is called on: after the call the record,
  and the set with its length, its order and every field of every record, are as before, and a
  second call returns the payload of the first.
\<close>

theorem serialize_pure:
  "snd (DNSRecord_serialize_call r) = r
   \<and> fst (DNSRecord_serialize_call (snd (DNSRecord_serialize_call r)))
       = fst (DNSRecord_serialize_call r)
   \<and> snd (DNSRecordSet_serialize_call rs) = rs
   \<and> fst (DNSRecordSet_serialize_call (snd (DNSRecordSet_serialize_call rs)))
       = fst (DNSRecordSet_serialize_call rs)
   \<and> fst (DNSRecordSet_serialize_call rs) = DNSRecordSet_serialize rs"
  by (simp add: DNSRecord_serialize_call_def DNSRecordSet_serialize_call_def serialize_each_eq
      DNSRecordSet_serialize_def Let_def)

subsection \<open>Deserialisation\<close>

text \<open>When \<^verbatim>\<open>DNSRecord.deserialize\<close> returns a record, and which.\<close>

lemma getitem_Inr: "getitem d k = Inr v \<longleftrightarrow> map_of d k = Some v"
  by (simp add: getitem_def split: option.splits)

lemma bindE_Inr: "bindE m f = Inr y \<longleftrightarrow> (\<exists>x. m = Inr x \<and> f x = Inr y)"
  by (cases m) (simp_all add: bindE_def)

lemma deserialize_dict_Inr:
  "deserialize_dict payload = Inr r \<longleftrightarrow>
     (\<exists>idv i. map_of payload ''id'' = Some idv \<and> py_int idv = Inr i
        \<and> map_of payload ''type'' = Some (record_type r)
        \<and> map_of payload ''hostname'' = Some (hostname r)
        \<and> map_of payload ''destination'' = Some (destination r)
        \<and> record_id r = Some i
        \<and> deleted r = truthy (dict_get payload ''delete'')
        \<and> (case map_of payload ''priority'' of
              None \<Rightarrow> priority r = None
            | Some v \<Rightarrow> \<exists>p. py_int v = Inr p \<and> priority r = (if p = 0 then None else Some p)))"
proof (cases r)
  case (fields rid rtype host dest prio del)
  show ?thesis
  proof (cases "map_of payload ''priority''")
    case None
    show ?thesis
    proof (cases "truthy (dict_get payload ''delete'')")
      case True
      with None fields show ?thesis
        by (simp add: deserialize_dict_def bindE_Inr getitem_Inr contains_def
            DNSRecord_init_def DNSRecord_delete_def) blast
    next
      case False
      with None fields show ?thesis
        by (simp add: deserialize_dict_def bindE_Inr getitem_Inr contains_def
            DNSRecord_init_def DNSRecord_delete_def) blast
    qed
  next
    case (Some v)
    show ?thesis
    proof (cases "truthy (dict_get payload ''delete'')")
      case True
      with Some fields show ?thesis
        by (simp add: deserialize_dict_def bindE_Inr getitem_Inr contains_def
            DNSRecord_init_def DNSRecord_delete_def) blast
    next
      case False
      with Some fields show ?thesis
        by (simp add: deserialize_dict_def bindE_Inr getitem_Inr contains_def
            DNSRecord_init_def DNSRecord_delete_def) blast
    qed
  qed
qed

text \<open>
  C4. When \<^verbatim>\<open>DNSRecord.deserialize\<close> returns a record for a payload: without the key
  \<^verbatim>\<open>priority\<close> the priority is \<^verbatim>\<open>None\<close>; with it, the value is read by \<^verbatim>\<open>int\<close> and 0
  becomes \<^verbatim>\<open>None\<close>; the id is what \<^verbatim>\<open>int\<close> reads; a string holding the numeral of an
  integer gives that integer, for the id and for the priority; the record is marked deleted
  exactly when the value under \<^verbatim>\<open>delete\<close> is truthy; type, hostname and destination are the
  values of the payload, whatever they are. It returns a record exactly for the payloads that
  have the keys \<^verbatim>\<open>id\<close>, \<^verbatim>\<open>type\<close>, \<^verbatim>\<open>hostname\<close> and \<^verbatim>\<open>destination\<close> and whose id and
  priority (if any) \<^verbatim>\<open>int\<close> accepts, and \<^verbatim>\<open>int\<close> accepts the numeral of every integer
  within the limit on the number of digits. The payload with id \<^verbatim>\<open>"5"\<close> and priority
  \<^verbatim>\<open>"0"\<close> gives id 5 and priority \<^verbatim>\<open>None\<close>.
\<close>

theorem deserialize_fields:
  "(deserialize_dict payload = Inr r \<longrightarrow>
      (map_of payload ''priority'' = None \<longrightarrow> priority r = None)
      \<and> (\<forall>v. map_of payload ''priority'' = Some v \<longrightarrow>
             (\<exists>p. py_int v = Inr p \<and> priority r = (if p = 0 then None else Some p)))
      \<and> (\<forall>p. map_of payload ''priority'' = Some (PStr (decimal p)) \<longrightarrow>
             priority r = (if p = 0 then None else Some p))
      \<and> (\<exists>v i. map_of payload ''id'' = Some v \<and> py_int v = Inr i \<and> record_id r = Some i)
      \<and> (\<forall>i. map_of payload ''id'' = Some (PStr (decimal i)) \<longrightarrow> record_id r = Some i)
      \<and> (deleted r \<longleftrightarrow> truthy (dict_get payload ''delete''))
      \<and> map_of payload ''type'' = Some (record_type r)
      \<and> map_of payload ''hostname'' = Some (hostname r)
      \<and> map_of payload ''destination'' = Some (destination r))
   \<and> ((\<exists>x. deserialize_dict payload = Inr x) \<longleftrightarrow>
        (\<exists>v i. map_of payload ''id'' = Some v \<and> py_int v = Inr i)
        \<and> map_of payload ''type'' \<noteq> None
        \<and> map_of payload ''hostname'' \<noteq> None
        \<and> map_of payload ''destination'' \<noteq> None
        \<and> (\<forall>v. map_of payload ''priority'' = Some v \<longrightarrow> (\<exists>p. py_int v = Inr p)))
   \<and> (\<forall>i. \<bar>i\<bar> < 10 ^ int_max_str_digits \<longrightarrow> py_int (PStr (decimal i)) = Inr i)
   \<and> DNSRecord_deserialize
        (PDict [(''id'', PStr ''5''), (''type'', PStr ''MX''), (''hostname'', PStr ''@''),
                (''destination'', PStr ''mail.example.com''), (''priority'', PStr ''0'')])
       = Inr \<lparr>record_id = Some 5, record_type = PStr ''MX'', hostname = PStr ''@'',
              destination = PStr ''mail.example.com'', priority = None, deleted = False\<rparr>"
proof (intro conjI)
  show "deserialize_dict payload = Inr r \<longrightarrow>
      (map_of payload ''priority'' = None \<longrightarrow> priority r = None)
      \<and> (\<forall>v. map_of payload ''priority'' = Some v \<longrightarrow>
             (\<exists>p. py_int v = Inr p \<and> priority r = (if p = 0 then None else Some p)))
      \<and> (\<forall>p. map_of payload ''priority'' = Some (PStr (decimal p)) \<longrightarrow>
             priority r = (if p = 0 then None else Some p))
      \<and> (\<exists>v i. map_of payload ''id'' = Some v \<and> py_int v = Inr i \<and> record_id r = Some i)
      \<and> (\<forall>i. map_of payload ''id'' = Some (PStr (decimal i)) \<longrightarrow> record_id r = Some i)
      \<and> (deleted r \<longleftrightarrow> truthy (dict_get payload ''delete''))
      \<and> map_of payload ''type'' = Some (record_type r)
      \<and> map_of payload ''hostname'' = Some (hostname r)
      \<and> map_of payload ''destination'' = Some (destination r)"
  proof
    assume a: "deserialize_dict payload = Inr r"
    have n: "py_int (PStr (decimal k)) = Inr x \<Longrightarrow> x = k" for k x
      by (simp add: int_of_str_decimal_Inr)
    from a obtain idv i where i: "map_of payload ''id'' = Some idv" "py_int idv = Inr i"
      "record_id r = Some i"
      unfolding deserialize_dict_Inr by blast+
    from a have p: "case map_of payload ''priority'' of
              None \<Rightarrow> priority r = None
            | Some v \<Rightarrow> \<exists>p. py_int v = Inr p \<and> priority r = (if p = 0 then None else Some p)"
      unfolding deserialize_dict_Inr by blast+
    from a have rest: "deleted r \<longleftrightarrow> truthy (dict_get payload ''delete'')"
      "map_of payload ''type'' = Some (record_type r)"
      "map_of payload ''hostname'' = Some (hostname r)"
      "map_of payload ''destination'' = Some (destination r)"
      unfolding deserialize_dict_Inr by blast+
    have p1: "map_of payload ''priority'' = None \<longrightarrow> priority r = None"
    proof
      assume "map_of payload ''priority'' = None"
      with p show "priority r = None" by (simp only: option.case)
    qed
    have p2: "\<forall>v. map_of payload ''priority'' = Some v \<longrightarrow>
             (\<exists>p. py_int v = Inr p \<and> priority r = (if p = 0 then None else Some p))"
    proof (intro allI impI)
      fix v assume "map_of payload ''priority'' = Some v"
      with p show "\<exists>p. py_int v = Inr p \<and> priority r = (if p = 0 then None else Some p)"
        by (simp only: option.case)
    qed
    have p3: "\<forall>p. map_of payload ''priority'' = Some (PStr (decimal p)) \<longrightarrow>
             priority r = (if p = 0 then None else Some p)"
    proof (intro allI impI)
      fix k assume "map_of payload ''priority'' = Some (PStr (decimal k))"
      with p2 obtain x where x: "py_int (PStr (decimal k)) = Inr x"
        "priority r = (if x = 0 then None else Some x)" by blast
      from n [OF x(1)] x(2) show "priority r = (if k = 0 then None else Some k)" by simp
    qed
    have i1: "\<exists>v i. map_of payload ''id'' = Some v \<and> py_int v = Inr i \<and> record_id r = Some i"
      using i by blast
    have i2: "\<forall>i. map_of payload ''id'' = Some (PStr (decimal i)) \<longrightarrow> record_id r = Some i"
    proof (intro allI impI)
      fix k assume "map_of payload ''id'' = Some (PStr (decimal k))"
      with i have "py_int (PStr (decimal k)) = Inr i" by simp
      from n [OF this] i(3) show "record_id r = Some k" by simp
    qed
    from p1 p2 p3 i1 i2 rest
    show "(map_of payload ''priority'' = None \<longrightarrow> priority r = None)
      \<and> (\<forall>v. map_of payload ''priority'' = Some v \<longrightarrow>
             (\<exists>p. py_int v = Inr p \<and> priority r = (if p = 0 then None else Some p)))
      \<and> (\<forall>p. map_of payload ''priority'' = Some (PStr (decimal p)) \<longrightarrow>
             priority r = (if p = 0 then None else Some p))
      \<and> (\<exists>v i. map_of payload ''id'' = Some v \<and> py_int v = Inr i \<and> record_id r = Some i)
      \<and> (\<forall>i. map_of payload ''id'' = Some (PStr (decimal i)) \<longrightarrow> record_id r = Some i)
      \<and> (deleted r \<longleftrightarrow> truthy (dict_get payload ''delete''))
      \<and> map_of payload ''type'' = Some (record_type r)
      \<and> map_of payload ''hostname'' = Some (hostname r)
      \<and> map_of payload ''destination'' = Some (destination r)"
      by blast
  qed
next
  show "(\<exists>x. deserialize_dict payload = Inr x) \<longleftrightarrow>
        (\<exists>v i. map_of payload ''id'' = Some v \<and> py_int v = Inr i)
        \<and> map_of payload ''type'' \<noteq> None
        \<and> map_of payload ''hostname'' \<noteq> None
        \<and> map_of payload ''destination'' \<noteq> None
        \<and> (\<forall>v. map_of payload ''priority'' = Some v \<longrightarrow> (\<exists>p. py_int v = Inr p))"
    (is "?L \<longleftrightarrow> ?R")
  proof
    assume ?L
    then show ?R by (auto simp: deserialize_dict_Inr)
  next
    assume a: ?R
    then obtain idv i t h d where f: "map_of payload ''id'' = Some idv" "py_int idv = Inr i"
      "map_of payload ''type'' = Some t" "map_of payload ''hostname'' = Some h"
      "map_of payload ''destination'' = Some d"
      by blast
    show ?L
    proof (cases "map_of payload ''priority''")
      case None
      with f have "deserialize_dict payload =
          Inr \<lparr>record_id = Some i, record_type = t, hostname = h, destination = d,
               priority = None, deleted = truthy (dict_get payload ''delete'')\<rparr>"
        by (simp add: deserialize_dict_Inr)
      then show ?thesis by blast
    next
      case (Some v)
      with a obtain p where "py_int v = Inr p" by blast
      with f Some have "deserialize_dict payload =
          Inr \<lparr>record_id = Some i, record_type = t, hostname = h, destination = d,
               priority = (if p = 0 then None else Some p),
               deleted = truthy (dict_get payload ''delete'')\<rparr>"
        by (simp add: deserialize_dict_Inr)
      then show ?thesis by blast
    qed
  qed
next
  show "\<forall>i. \<bar>i\<bar> < 10 ^ int_max_str_digits \<longrightarrow> py_int (PStr (decimal i)) = Inr i"
    by (simp add: int_of_str_decimal_small)
next
  show "DNSRecord_deserialize
        (PDict [(''id'', PStr ''5''), (''type'', PStr ''MX''), (''hostname'', PStr ''@''),
                (''destination'', PStr ''mail.example.com''), (''priority'', PStr ''0'')])
       = Inr \<lparr>record_id = Some 5, record_type = PStr ''MX'', hostname = PStr ''@'',
              destination = PStr ''mail.example.com'', priority = None, deleted = False\<rparr>"
    by (simp add: deserialize_dict_Inr dict_get_def small_numerals)
qed

theorem deserialize_fields_witness:
  "deserialize_dict [(''id'', PStr ''5''), (''type'', PStr ''MX''), (''hostname'', PStr ''@''),
                (''destination'', PStr ''mail.example.com''), (''priority'', PStr ''0'')]
     = Inr \<lparr>record_id = Some 5, record_type = PStr ''MX'', hostname = PStr ''@'',
              destination = PStr ''mail.example.com'', priority = None, deleted = False\<rparr>
   \<and> (\<exists>p. py_int (PStr ''0'') = Inr p \<and> None = (if p = 0 then None else Some p))
   \<and> (\<exists>i. py_int (PStr ''5'') = Inr i \<and> Some (5::int) = Some i)
   \<and> \<not> truthy (dict_get [(''id'', PStr ''5''), (''type'', PStr ''MX''), (''hostname'', PStr ''@''),
                (''destination'', PStr ''mail.example.com''), (''priority'', PStr ''0'')] ''delete'')
   \<and> deserialize_dict [(''id'', PInt 7), (''type'', PInt 5), (''hostname'', PNone),
                (''destination'', PList []), (''priority'', PFloat (FFinite 7 (- 1))),
                (''delete'', PInt 1)]
     = Inr \<lparr>record_id = Some 7, record_type = PInt 5, hostname = PNone,
              destination = PList [], priority = Some 3, deleted = True\<rparr>
   \<and> (\<exists>p. py_int (PFloat (FFinite 7 (- 1))) = Inr p \<and> Some (3::int) = (if p = 0 then None else Some p))
   \<and> truthy (dict_get [(''id'', PInt 7), (''type'', PInt 5), (''hostname'', PNone),
                (''destination'', PList []), (''priority'', PFloat (FFinite 7 (- 1))),
                (''delete'', PInt 1)] ''delete'')"
  using deserialize_fields
    [of "[(''id'', PStr ''5''), (''type'', PStr ''MX''), (''hostname'', PStr ''@''),
          (''destination'', PStr ''mail.example.com''), (''priority'', PStr ''0'')]"
        "\<lparr>record_id = Some 5, record_type = PStr ''MX'', hostname = PStr ''@'',
              destination = PStr ''mail.example.com'', priority = None, deleted = False\<rparr>"]
    deserialize_fields
    [of "[(''id'', PInt 7), (''type'', PInt 5), (''hostname'', PNone),
                (''destination'', PList []), (''priority'', PFloat (FFinite 7 (- 1))),
                (''delete'', PInt 1)]"
        "\<lparr>record_id = Some 7, record_type = PInt 5, hostname = PNone,
              destination = PList [], priority = Some 3, deleted = True\<rparr>"]
  by (simp add: deserialize_dict_Inr dict_get_def float_trunc_def)

subsection \<open>Serialising and reading back\<close>

lemma serialize_with_id:
  "record_id r = Some i \<Longrightarrow>
     DNSRecord_serialize r =
       PDict ([(''id'', PInt i), (''type'', PStr (record_type r)),
               (''hostname'', PStr (hostname r)), (''destination'', PStr (destination r)),
               (''deleterecord'', PBool (deleted r)), (''state'', PNone)]
              @ (case priority r of None \<Rightarrow> [] | Some p \<Rightarrow> [(''priority'', PInt p)]))"
  by (simp add: DNSRecord_serialize_def py_opt_int_def split: option.splits)

text \<open>
  C1, as amended. For every record that is not marked deleted, has an id and has a priority
  other than 0, \<^verbatim>\<open>deserialize\<close> on the payload of \<^verbatim>\<open>serialize\<close> returns the record itself:
  id, type, hostname, destination, priority and flag are those of the record, which is therefore
  equal to it. A priority that \<^verbatim>\<open>int\<close> reads as 0 on the wire is deserialized to \<^verbatim>\<open>None\<close>,
  and the payload of a record without priority has no key \<^verbatim>\<open>priority\<close>.
\<close>

theorem serialize_roundtrip:
  "(deleted r = False \<and> record_id r \<noteq> None \<and> priority r \<noteq> Some 0 \<longrightarrow>
      DNSRecord_deserialize (DNSRecord_serialize r) = Inr (as_object r)
      \<and> DNSRecord_eq r (Obj_DNSRecord r))
   \<and> (deserialize_dict payload = Inr r'
        \<and> (\<exists>v. map_of payload ''priority'' = Some v \<and> py_int v = Inr 0)
       \<longrightarrow> priority r' = None)
   \<and> (priority r = None \<longrightarrow>
        (\<forall>d. DNSRecord_serialize r = PDict d \<longrightarrow> map_of d ''priority'' = None))"
proof (intro conjI impI)
  assume a: "deleted r = False \<and> record_id r \<noteq> None \<and> priority r \<noteq> Some 0"
  then obtain i where i: "record_id r = Some i" by blast
  show "DNSRecord_deserialize (DNSRecord_serialize r) = Inr (as_object r)"
  proof (cases "priority r")
    case None
    with a i show ?thesis
      by (simp add: serialize_with_id deserialize_dict_Inr dict_get_def as_object_def)
  next
    case (Some p)
    with a i show ?thesis
      by (simp add: serialize_with_id deserialize_dict_Inr dict_get_def as_object_def)
  qed
next
  show "DNSRecord_eq r (Obj_DNSRecord r)" by simp
next
  assume "deserialize_dict payload = Inr r'
        \<and> (\<exists>v. map_of payload ''priority'' = Some v \<and> py_int v = Inr 0)"
  then show "priority r' = None"
    by (auto simp: deserialize_dict_Inr)
next
  assume "priority r = None"
  then show "\<forall>d. DNSRecord_serialize r = PDict d \<longrightarrow> map_of d ''priority'' = None"
    by (auto simp: DNSRecord_serialize_def Let_def split: if_splits)
qed

theorem serialize_roundtrip_witness:
  "DNSRecord_deserialize
      (DNSRecord_serialize (DNSRecord_init (Some 5) ''MX'' ''@'' ''mail.example.com'' (Some 10)))
     = Inr (as_object (DNSRecord_init (Some 5) ''MX'' ''@'' ''mail.example.com'' (Some 10)))
   \<and> deleted (DNSRecord_init (Some 5) ''MX'' ''@'' ''mail.example.com'' (Some 10)) = False
   \<and> record_id (DNSRecord_init (Some 5) ''MX'' ''@'' ''mail.example.com'' (Some 10)) \<noteq> None
   \<and> priority (DNSRecord_init (Some 5) ''MX'' ''@'' ''mail.example.com'' (Some 10)) \<noteq> Some 0"
  using serialize_roundtrip
    [where r = "DNSRecord_init (Some 5) ''MX'' ''@'' ''mail.example.com'' (Some 10)"]
  by (simp add: DNSRecord_init_def)

text \<open>
  C1, as stated, covers every record that is not marked deleted. A record with id 5 and
  priority 0 comes back with priority \<^verbatim>\<open>None\<close>, which is a different record under
  \<^verbatim>\<open>__eq__\<close>; a new record, without id, serializes its id as \<^verbatim>\<open>None\<close>, on which
  \<^verbatim>\<open>int\<close> raises \<^verbatim>\<open>TypeError\<close>.
\<close>

theorem serialize_roundtrip_counterexample:
  "deleted (DNSRecord_init (Some 5) ''A'' ''www'' ''1.2.3.4'' (Some 0)) = False
   \<and> DNSRecord_deserialize
        (DNSRecord_serialize (DNSRecord_init (Some 5) ''A'' ''www'' ''1.2.3.4'' (Some 0)))
       = Inr (as_object (DNSRecord_init (Some 5) ''A'' ''www'' ''1.2.3.4'' None))
   \<and> \<not> DNSRecord_eq (DNSRecord_init (Some 5) ''A'' ''www'' ''1.2.3.4'' (Some 0))
          (Obj_DNSRecord (DNSRecord_init (Some 5) ''A'' ''www'' ''1.2.3.4'' None))
   \<and> deleted (DNSRecord_new ''A'' ''www'' ''1.2.3.4'' None) = False
   \<and> DNSRecord_deserialize (DNSRecord_serialize (DNSRecord_new ''A'' ''www'' ''1.2.3.4'' None))
       = Inl TypeError"
proof -
  have u: "upper ''A'' \<noteq> ''MX''" by (simp add: upper_def)
  have "DNSRecord_deserialize
        (DNSRecord_serialize (DNSRecord_init (Some 5) ''A'' ''www'' ''1.2.3.4'' (Some 0)))
       = Inr (as_object (DNSRecord_init (Some 5) ''A'' ''www'' ''1.2.3.4'' None))"
    by (simp add: serialize_with_id deserialize_dict_Inr dict_get_def DNSRecord_init_def
        as_object_def)
  moreover have
    "DNSRecord_deserialize (DNSRecord_serialize (DNSRecord_new ''A'' ''www'' ''1.2.3.4'' None))
       = Inl TypeError"
    using u
    by (simp add: DNSRecord_new_def DNSRecord_init_def DNSRecord_serialize_def py_opt_int_def
        deserialize_dict_def contains_def getitem_def bindE_def)
  ultimately show ?thesis
    using u by (simp add: DNSRecord_init_def DNSRecord_new_def cmpkey_def)
qed

section \<open>Properties of DNSRecordSet\<close>

text \<open>
  C7. \<^verbatim>\<open>delete_hostname\<close> keeps the domain name, the length and the order of the set. A record
  whose hostname is the argument, character for character, comes out marked deleted and otherwise
  as it was; every other record comes out as it was, delete flag included.
\<close>

theorem delete_hostname_frame:
  "domainname (delete_hostname rs host) = domainname rs
   \<and> length (records (delete_hostname rs host)) = length (records rs)
   \<and> (\<forall>i < length (records rs).
        records (delete_hostname rs host) ! i =
          (if hostname (records rs ! i) = host then (records rs ! i)\<lparr>deleted := True\<rparr>
           else records rs ! i))"
  by (simp add: delete_hostname_def DNSRecord_delete_def)

theorem delete_hostname_frame_witness:
  "records (delete_hostname
     \<lparr>domainname = ''example.com'',
      records = [DNSRecord_init (Some 1) ''A'' ''www'' ''1.2.3.4'' None,
                 DNSRecord_init (Some 2) ''A'' ''WWW'' ''1.2.3.4'' None,
                 DNSRecord_init None ''A'' ''www'' ''1.2.3.5'' None]\<rparr> ''www'') ! 0
     = (DNSRecord_init (Some 1) ''A'' ''www'' ''1.2.3.4'' None)\<lparr>deleted := True\<rparr>
   \<and> records (delete_hostname
     \<lparr>domainname = ''example.com'',
      records = [DNSRecord_init (Some 1) ''A'' ''www'' ''1.2.3.4'' None,
                 DNSRecord_init (Some 2) ''A'' ''WWW'' ''1.2.3.4'' None,
                 DNSRecord_init None ''A'' ''www'' ''1.2.3.5'' None]\<rparr> ''www'') ! 1
     = DNSRecord_init (Some 2) ''A'' ''WWW'' ''1.2.3.4'' None"
proof -
  let ?rs = "\<lparr>domainname = ''example.com'',
      records = [DNSRecord_init (Some 1) ''A'' ''www'' ''1.2.3.4'' None,
                 DNSRecord_init (Some 2) ''A'' ''WWW'' ''1.2.3.4'' None,
                 DNSRecord_init None ''A'' ''www'' ''1.2.3.5'' None]\<rparr>"
  have len: "length (records ?rs) = 3" by simp
  from delete_hostname_frame [of ?rs "''www''"]
  have all: "\<forall>i < length (records ?rs).
        records (delete_hostname ?rs ''www'') ! i =
          (if hostname (records ?rs ! i) = ''www'' then (records ?rs ! i)\<lparr>deleted := True\<rparr>
           else records ?rs ! i)"
    by blast
  have h0: "hostname (records ?rs ! 0) = ''www''" by (simp add: DNSRecord_init_def)
  have h1: "hostname (records ?rs ! 1) \<noteq> ''www''" by (simp add: DNSRecord_init_def)
  from all have "records (delete_hostname ?rs ''www'') ! 0 = (records ?rs ! 0)\<lparr>deleted := True\<rparr>"
    using h0 len by simp
  moreover from all have "records (delete_hostname ?rs ''www'') ! 1 = records ?rs ! 1"
    using h1 len by simp
  ultimately show ?thesis by simp
qed

text \<open>
  C8, as amended. \<^verbatim>\<open>add\<close> with a record appends it at the end and returns the set itself.
  With anything else the \<^verbatim>\<open>assert\<close> fails, an \<^verbatim>\<open>AssertionError\<close>, and the set is as it was.
\<close>

theorem add_appends:
  "add rs (Obj_DNSRecord r) =
     (Inr (rs\<lparr>records := records rs @ [r]\<rparr>), rs\<lparr>records := records rs @ [r]\<rparr>)
   \<and> add rs (Obj_Other v) = (Inl AssertionError, rs)"
  by (simp add: Let_def)

text \<open>
  C8, as stated, asks for a type error. Adding a string to an empty set does not raise
  \<^verbatim>\<open>TypeError\<close>.
\<close>

theorem add_type_error_counterexample:
  "fst (add (DNSRecordSet_init ''example.com'') (Obj_Other (PStr ''www''))) \<noteq> Inl TypeError"
  by simp

section \<open>Properties of NetcupConnection\<close>

text \<open>Deserialising a record set never raises \<^verbatim>\<open>ServerResponseError\<close>.\<close>

lemma bindE_not_Inl:
  "m \<noteq> Inl e \<Longrightarrow> (\<And>x. f x \<noteq> Inl e) \<Longrightarrow> bindE m f \<noteq> Inl e"
  by (cases m) (simp_all add: bindE_def)

lemma getitem_not_SRE: "getitem d k \<noteq> Inl ServerResponseError"
  by (simp add: getitem_def split: option.splits)

lemma py_int_not_SRE: "py_int v \<noteq> Inl ServerResponseError"
  by (induction v rule: py_int.induct)
    (auto simp: int_of_str_def int_of_digits_def bindE_def
      split: list.splits option.splits sum.splits if_splits)

lemma deserialize_dict_not_SRE: "deserialize_dict payload \<noteq> Inl ServerResponseError"
proof -
  have p: "(if contains payload ''priority''
            then bindE (getitem payload ''priority'') (\<lambda>v.
                 bindE (py_int v) (\<lambda>p. Inr (if p = 0 then None else Some p)))
            else Inr None) \<noteq> Inl ServerResponseError"
  proof (cases "contains payload ''priority''")
    case True
    have "bindE (getitem payload ''priority'') (\<lambda>v.
                 bindE (py_int v) (\<lambda>p. Inr (if p = 0 then None else Some p)))
          \<noteq> Inl ServerResponseError"
      by (intro bindE_not_Inl getitem_not_SRE py_int_not_SRE) simp
    with True show ?thesis by simp
  next
    case False
    then show ?thesis by simp
  qed
  show ?thesis
    unfolding deserialize_dict_def Let_def
    by (intro bindE_not_Inl p getitem_not_SRE py_int_not_SRE) simp
qed

lemma DNSRecord_deserialize_not_SRE: "DNSRecord_deserialize v \<noteq> Inl ServerResponseError"
  by (cases v) (simp_all add: deserialize_dict_not_SRE)

lemma deserialize_loop_not_SRE: "deserialize_loop rs items \<noteq> Inl ServerResponseError"
proof (induction items arbitrary: rs)
  case Nil
  show ?case by simp
next
  case (Cons x xs)
  show ?case
    by (simp only: deserialize_loop.simps)
      (intro bindE_not_Inl DNSRecord_deserialize_not_SRE Cons.IH)
qed

lemma py_iter_not_SRE: "py_iter v \<noteq> Inl ServerResponseError"
  by (cases v) simp_all

lemma DNSRecordSet_deserialize_not_SRE:
  "DNSRecordSet_deserialize dname v \<noteq> Inl ServerResponseError"
proof (cases v)
  case (PDict d)
  show ?thesis
    unfolding PDict DNSRecordSet_deserialize.simps
    by (intro bindE_not_Inl getitem_not_SRE py_iter_not_SRE deserialize_loop_not_SRE)
qed simp_all

lemma subscript_not_SRE: "subscript v k \<noteq> Inl ServerResponseError"
  by (cases v) (simp_all add: getitem_not_SRE)

text \<open>
  With a session and a response from the transport, \<^verbatim>\<open>update_dns_records\<close> raises
  \<^verbatim>\<open>ServerResponseError\<close> in one case only: the HTTP status is not 200 and the status field
  of the body is \<^verbatim>\<open>"ok"\<close>.
\<close>

lemma update_dns_records_raises_iff:
  assumes "session_id self \<noteq> PNone"
  shows "fst (update_dns_records (\<lambda>u p. Inr resp) self dns_records) = Inl ServerResponseError
         \<longleftrightarrow> status resp \<noteq> 200 \<and> subscript (data resp) ''status'' = Inr (PStr ''ok'')"
proof (cases "status resp = 200")
  case True
  have "bindE (subscript (data resp) ''responsedata'')
          (DNSRecordSet_deserialize (domainname dns_records)) \<noteq> Inl ServerResponseError"
    by (intro bindE_not_Inl subscript_not_SRE DNSRecordSet_deserialize_not_SRE)
  with assms True show ?thesis
    by (simp add: update_dns_records_def session_action_def action_def bindE_def)
next
  case False
  have d: "bindE (subscript (data resp) ''responsedata'')
          (DNSRecordSet_deserialize (domainname dns_records)) \<noteq> Inl ServerResponseError"
    by (intro bindE_not_Inl subscript_not_SRE DNSRecordSet_deserialize_not_SRE)
  show ?thesis
  proof (cases "subscript (data resp) ''status''")
    case (Inl e)
    with assms False subscript_not_SRE [of "data resp" "''status''"] show ?thesis
      by (simp add: update_dns_records_def session_action_def action_def bindE_def)
  next
    case (Inr st)
    with assms False d show ?thesis
      by (simp add: update_dns_records_def session_action_def action_def bindE_def)
  qed
qed

text \<open>
  C2 asks \<^verbatim>\<open>update_dns_records\<close> to raise \<^verbatim>\<open>ServerResponseError\<close> whenever the HTTP status is
  not 200, and whenever it is 200 but the status field of the body is not the success value.
  The condition of the code is \<^verbatim>\<open>status == 200 or data.status != "ok"\<close>: with HTTP 200 and
  the body status \<^verbatim>\<open>"error"\<close> it returns the deserialized record set, with HTTP 500 and
  \<^verbatim>\<open>"error"\<close> likewise, and it raises with HTTP 500 and \<^verbatim>\<open>"ok"\<close>.
\<close>

theorem update_dns_records_inverted_check:
  "update_dns_records
     (\<lambda>u p. Inr \<lparr>status = 200,
                 data = PDict [(''status'', PStr ''error''), (''longmessage'', PStr ''denied''),
                               (''responsedata'', PDict [(''dnsrecords'', PList [])])]\<rparr>)
     \<lparr>uri = ''https://api.example/'', customer = ''1'', api_key = ''key'',
      api_password = ''secret'', session_id = PStr ''sid''\<rparr>
     (DNSRecordSet_init ''example.com'')
    = (Inr (DNSRecordSet_init ''example.com''), [])
   \<and> update_dns_records
     (\<lambda>u p. Inr \<lparr>status = 500,
                 data = PDict [(''status'', PStr ''error''), (''longmessage'', PStr ''denied''),
                               (''responsedata'', PDict [(''dnsrecords'', PList [])])]\<rparr>)
     \<lparr>uri = ''https://api.example/'', customer = ''1'', api_key = ''key'',
      api_password = ''secret'', session_id = PStr ''sid''\<rparr>
     (DNSRecordSet_init ''example.com'')
    = (Inr (DNSRecordSet_init ''example.com''), [])
   \<and> update_dns_records
     (\<lambda>u p. Inr \<lparr>status = 500,
                 data = PDict [(''status'', PStr ''ok''), (''longmessage'', PStr ''''),
                               (''responsedata'', PDict [(''dnsrecords'', PList [])])]\<rparr>)
     \<lparr>uri = ''https://api.example/'', customer = ''1'', api_key = ''key'',
      api_password = ''secret'', session_id = PStr ''sid''\<rparr>
     (DNSRecordSet_init ''example.com'')
    = (Inl ServerResponseError, [])"
  by (simp add: update_dns_records_def session_action_def action_def bindE_def getitem_def
      DNSRecordSet_init_def)

text \<open>
  C9 asks every session-scoped call on a connection without session to print a warning and to
  return nothing, without raising. \<^verbatim>\<open>_session_action\<close>, \<^verbatim>\<open>logout\<close> and
  \<^verbatim>\<open>list_all_domains\<close> do so. \<^verbatim>\<open>info_dns_records\<close> and \<^verbatim>\<open>update_dns_records\<close> print the
  warning and then subscript the \<^verbatim>\<open>None\<close> they got, which raises \<^verbatim>\<open>TypeError\<close>.
\<close>

theorem info_dns_records_without_session:
  "session_action post (NetcupConnection_init endpoint cust key password) action_name params
     = (Inr None, [no_session_warning])
   \<and> logout post (NetcupConnection_init endpoint cust key password)
     = (Inr None, [no_session_warning])
   \<and> list_all_domains post (NetcupConnection_init endpoint cust key password)
     = (Inr None, [no_session_warning])
   \<and> info_dns_records post (NetcupConnection_init endpoint cust key password) dname
     = (Inl TypeError, [no_session_warning])
   \<and> update_dns_records post (NetcupConnection_init endpoint cust key password) dns_records
     = (Inl TypeError, [no_session_warning])"
  by (simp add: session_action_def logout_def list_all_domains_def info_dns_records_def
      update_dns_records_def NetcupConnection_init_def bindE_def)

end
